theory Spec2Isabelle
  imports Complex_Main "HOL-Library.Sublist"
begin

section \<open>Instant tracking with a real-time environment map: the page script\<close>

text \<open>
  The program is one script, \<^verbatim>\<open>src/index.ts\<close>. It runs once from top to bottom, registers
  four callbacks (window resize, permission result, model load success and failure, click on
  the placement control) and starts the frame loop \<^verbatim>\<open>render\<close>, which re-schedules itself
  with \<^verbatim>\<open>requestAnimationFrame\<close>.

  The embedding is explicit state passing over a record \<open>page\<close>. Requests to the external
  collaborators (Zappar, the ThreeJS renderer, the loader, the console, the animation-frame
  scheduler) are appended to the log \<open>calls\<close> in the order the script issues them. What the
  script changes in objects it holds (the placement control, the size of the renderer, the
  children of the anchor group, the loaded model, the flag \<^verbatim>\<open>hasPlaced\<close>) is kept in
  fields. Numbers that the script only passes on are reals (the literals of the camera offset)
  and integers (the sizes of the viewport). Numbers that the script computes are kept as the
  expressions that compute them, in the type \<open>number\<close>: the arithmetic on doubles is the
  platform's and its rounding is not part of this model.
\<close>

subsection \<open>Data\<close>

type_synonym vec3 = "real \<times> real \<times> real"

text \<open>A JavaScript number as the script obtains it: a given double, \<^verbatim>\<open>Math.PI\<close>, or the
  result of a multiplication or a division of two numbers. The result of an operation is the
  double that the platform computes; it is not evaluated here.\<close>

datatype number = Num real | MathPI | Times number number | Over number number

type_synonym vector3 = "number \<times> number \<times> number"

text \<open>A node of a ThreeJS scene graph, with the properties the script reads or writes.\<close>

datatype object3d =
  Object3D (isMesh: bool) (castShadow: bool) (rotation: vector3) (scale: vector3)
    (children: "object3d list")

text \<open>A DOM element: its inline \<^verbatim>\<open>style.display\<close>, whether it has a parent node, and how
  many click listeners the script has registered on it.\<close>

record element =
  display :: string
  attached :: bool
  clickListeners :: nat

text \<open>The objects the script passes to its collaborators.\<close>

datatype handle = Renderer | Scene | Camera

text \<open>The objects the script adds to \<^verbatim>\<open>instantTrackerGroup\<close>, by identity.\<close>

datatype child = DirLight | AmbientLight | Plane | GltfScene

datatype call =
    BrowserIncompatibleUI
  | NewLoadingManager
  | NewWebGLRenderer
  | NewScene
  | AppendCanvas
  | NewCamera
  | PermissionRequestUI
  | CameraStart
  | PermissionDeniedUI
  | GlContextSet
  | NewInstantWorldTracker
  | NewInstantWorldAnchorGroup
  | SceneAdd
  | NewGLTFLoader
  | GLTFLoad
  | NewDirectionalLight
  | NewAmbientLight
  | NewCameraEnvironmentMap
  | NewPlaneMesh
  | ConsoleLog string
  | SetAnchorPoseFromCameraOffset real real real
  | EnvironmentMapUpdate handle handle
  | CameraUpdateFrame handle
  | RendererRender handle handle
  | RequestAnimationFrame

text \<open>The four delegated calls of one frame; any of them may fail (throw).\<close>

datatype step = AnchorOffset | EnvUpdate | CameraUpdate | RenderScene

datatype error = Error string | DelegateFailed step

record page =
  calls :: "call list"
  uncaught :: "error list"
  innerWidth :: int
  innerHeight :: int
  rendererSize :: "(int \<times> int) option"
  placeButton :: "element option"
  resizeListener :: bool
  groupChildren :: "child list"
  planeGeometry :: "(int \<times> int) option"
  gltfScene :: "object3d option"
  anchorOffset :: "vec3 option"
  hasPlaced :: bool
  loadPending :: bool
  permissionPending :: bool
  rafPending :: nat

text \<open>What the script finds when it starts: the answer of
  \<^verbatim>\<open>ZapparThree.browserIncompatible()\<close>, the result of
  \<^verbatim>\<open>document.getElementById('tap-to-place')\<close> and the size of the window.\<close>

record env =
  browserIncompatible :: bool
  tapToPlace :: "element option"
  windowWidth :: int
  windowHeight :: int

text \<open>A call of a function of the script either returns or throws; both leave a page.\<close>

datatype outcome = Returned page | Thrown error page

fun page_of :: "outcome \<Rightarrow> page" where
  "page_of (Returned s) = s"
| "page_of (Thrown e s) = s"

fun thrown :: "outcome \<Rightarrow> error option" where
  "thrown (Returned s) = None"
| "thrown (Thrown e s) = Some e"

fun and_then :: "outcome \<Rightarrow> (page \<Rightarrow> outcome) \<Rightarrow> outcome" where
  "and_then (Returned s) k = k s"
| "and_then (Thrown e s) k = Thrown e s"

subsection \<open>Collaborators\<close>

definition request :: "call \<Rightarrow> page \<Rightarrow> page" where
  "request c s = s\<lparr>calls := calls s @ [c]\<rparr>"

text \<open>A delegated call of the frame loop: the request is issued, and fails if \<open>f\<close> names
  its step.\<close>

definition delegate :: "step option \<Rightarrow> step \<Rightarrow> call \<Rightarrow> page \<Rightarrow> outcome" where
  "delegate f st c s =
     (if f = Some st then Thrown (DelegateFailed st) (request c s)
      else Returned (request c s))"

text \<open>\<^verbatim>\<open>renderer.setSize(w, h)\<close>; the pixel ratio of the renderer is the default 1, the
  script never sets it.\<close>

definition setSize :: "int \<Rightarrow> int \<Rightarrow> page \<Rightarrow> page" where
  "setSize w h s = s\<lparr>rendererSize := Some (w, h)\<rparr>"

text \<open>\<^verbatim>\<open>instantTrackerGroup.add(o)\<close>: ThreeJS detaches \<open>o\<close> from its parent, then pushes it.\<close>

definition groupAdd :: "child \<Rightarrow> page \<Rightarrow> page" where
  "groupAdd c s = s\<lparr>groupChildren := remove1 c (groupChildren s) @ [c]\<rparr>"

text \<open>\<^verbatim>\<open>document.createElement('div')\<close>: a fresh element without a parent.\<close>

definition createElement :: element where
  "createElement = \<lparr>display = [], attached = False, clickListeners = 0\<rparr>"

text \<open>\<^verbatim>\<open>el.remove()\<close>: detaches the element; nothing happens when it has no parent.\<close>

definition remove :: "element \<Rightarrow> element" where
  "remove b = b\<lparr>attached := False\<rparr>"

definition addClickListener :: "element \<Rightarrow> element" where
  "addClickListener b = b\<lparr>clickListeners := Suc (clickListeners b)\<rparr>"

text \<open>\<^verbatim>\<open>v.multiplyScalar(k)\<close>: each component is replaced by its product with \<open>k\<close>.\<close>

fun multiplyScalar :: "vector3 \<Rightarrow> number \<Rightarrow> vector3" where
  "multiplyScalar (x, y, z) k = (Times x k, Times y k, Times z k)"

text \<open>\<^verbatim>\<open>v.y = k\<close>.\<close>

fun set_y :: "vector3 \<Rightarrow> number \<Rightarrow> vector3" where
  "set_y (x, y, z) k = (x, k, z)"

text \<open>\<^verbatim>\<open>o.traverse(node => { if (node.isMesh) node.castShadow = true })\<close>: the callback runs
  on the node itself and then on every descendant.\<close>

fun traverse_castShadow :: "object3d \<Rightarrow> object3d" where
  "traverse_castShadow (Object3D m c r sc ch) =
     Object3D m (if m then True else c) r sc (map traverse_castShadow ch)"

subsection \<open>The frame loop\<close>

definition requestAnimationFrame :: "page \<Rightarrow> page" where
  "requestAnimationFrame s = (request RequestAnimationFrame s)\<lparr>rafPending := Suc (rafPending s)\<rparr>"

definition setAnchorPoseFromCameraOffset ::
    "step option \<Rightarrow> real \<Rightarrow> real \<Rightarrow> real \<Rightarrow> page \<Rightarrow> outcome" where
  "setAnchorPoseFromCameraOffset f x y z s =
     and_then (delegate f AnchorOffset (SetAnchorPoseFromCameraOffset x y z) s)
       (\<lambda>s. Returned (s\<lparr>anchorOffset := Some (x, y, z)\<rparr>))"

definition render :: "step option \<Rightarrow> page \<Rightarrow> outcome" where
  "render f s0 =
     and_then (if \<not> hasPlaced s0 then setAnchorPoseFromCameraOffset f 0 0 (- 2) s0
               else Returned s0)
    (\<lambda>s. and_then (delegate f EnvUpdate (EnvironmentMapUpdate Renderer Camera) s)
    (\<lambda>s. and_then (delegate f CameraUpdate (CameraUpdateFrame Renderer) s)
    (\<lambda>s. and_then (delegate f RenderScene (RendererRender Scene Camera) s)
    (\<lambda>s. Returned (requestAnimationFrame s)))))"

subsection \<open>Callbacks\<close>

text \<open>The click listener of the placement control.\<close>

definition onClick :: "page \<Rightarrow> outcome" where
  "onClick s = Returned (s\<lparr>hasPlaced := True, placeButton := map_option remove (placeButton s)\<rparr>)"

text \<open>The resize listener of the window.\<close>

definition onResize :: "page \<Rightarrow> outcome" where
  "onResize s = Returned (setSize (innerWidth s) (innerHeight s) s)"

text \<open>The success callback of \<^verbatim>\<open>gltfLoader.load\<close>; \<open>g\<close> is \<^verbatim>\<open>gltf.scene\<close>.\<close>

definition onLoad :: "object3d \<Rightarrow> page \<Rightarrow> outcome" where
  "onLoad g s0 =
     (let s = s0\<lparr>placeButton := map_option (\<lambda>b. b\<lparr>display := ''block''\<rparr>) (placeButton s0)\<rparr>;
          g = (case g of Object3D m c r sc ch \<Rightarrow> Object3D m c (set_y r (Over MathPI (Num 2.5))) sc ch);
          g = (case g of Object3D m c r sc ch \<Rightarrow> Object3D m c r (multiplyScalar sc (Num 1.2)) ch);
          g = traverse_castShadow g;
          s = groupAdd GltfScene (s\<lparr>gltfScene := Some g\<rparr>)
      in Returned s)"

text \<open>The error callback of \<^verbatim>\<open>gltfLoader.load\<close>.\<close>

definition onLoadError :: "page \<Rightarrow> outcome" where
  "onLoadError s = Returned (request (ConsoleLog ''An error ocurred loading the GLTF model'') s)"

text \<open>The continuation of \<^verbatim>\<open>permissionRequestUI()\<close>.\<close>

definition onPermission :: "bool \<Rightarrow> page \<Rightarrow> outcome" where
  "onPermission granted s =
     Returned (if granted then request CameraStart s else request PermissionDeniedUI s)"

subsection \<open>The script\<close>

text \<open>The page before the script has run: nothing is created and nothing is registered. The
  variable \<^verbatim>\<open>hasPlaced\<close> is not initialised before its declaration; here it is False.\<close>

definition pristine :: "env \<Rightarrow> page" where
  "pristine e =
     \<lparr>calls = [], uncaught = [], innerWidth = windowWidth e, innerHeight = windowHeight e,
      rendererSize = None, placeButton = None, resizeListener = False, groupChildren = [],
      planeGeometry = None, gltfScene = None, anchorOffset = None, hasPlaced = False,
      loadPending = False, permissionPending = False, rafPending = 0\<rparr>"

text \<open>Lines 31 to 151 of the script, in order. Assignments that only configure an object of a
  collaborator (shadow map, encodings, tone mapping, light parameters) are part of the request
  that creates the object.\<close>

definition initialise :: "env \<Rightarrow> page \<Rightarrow> page" where
  "initialise e s0 =
     (let s = request NewLoadingManager s0;
          s = request NewWebGLRenderer s;
          s = request NewScene s;
          s = request AppendCanvas s;
          s = s\<lparr>placeButton :=
                  Some (case tapToPlace e of Some b \<Rightarrow> b | None \<Rightarrow> createElement)\<rparr>;
          s = setSize (innerWidth s) (innerHeight s) s;
          s = s\<lparr>resizeListener := True\<rparr>;
          s = request NewCamera s;
          s = (request PermissionRequestUI s)\<lparr>permissionPending := True\<rparr>;
          s = request GlContextSet s;
          s = request NewInstantWorldTracker s;
          s = request NewInstantWorldAnchorGroup s;
          s = request SceneAdd s;
          s = request NewGLTFLoader s;
          s = (request GLTFLoad s)\<lparr>loadPending := True\<rparr>;
          s = request NewDirectionalLight s;
          s = groupAdd DirLight s;
          s = request NewAmbientLight s;
          s = groupAdd AmbientLight s;
          s = request NewCameraEnvironmentMap s;
          s = (request NewPlaneMesh s)\<lparr>planeGeometry := Some (innerWidth s, innerHeight s)\<rparr>;
          s = groupAdd Plane s;
          s = s\<lparr>hasPlaced := False\<rparr>;
          s = s\<lparr>placeButton := map_option addClickListener (placeButton s)\<rparr>
      in s)"

text \<open>The whole script; \<open>f\<close> says which delegated call of the first \<^verbatim>\<open>render()\<close> fails.\<close>

definition main :: "env \<Rightarrow> step option \<Rightarrow> outcome" where
  "main e f =
     (if browserIncompatible e
      then Thrown (Error ''Unsupported browser'') (request BrowserIncompatibleUI (pristine e))
      else render f (initialise e (pristine e)))"

subsection \<open>The host\<close>

text \<open>The browser runs the script, then the callbacks, one at a time. An exception that
  leaves the script or a callback is reported and the page lives on.\<close>

fun host :: "outcome \<Rightarrow> page" where
  "host (Returned s) = s"
| "host (Thrown e s) = s\<lparr>uncaught := uncaught s @ [e]\<rparr>"

definition boot :: "env \<Rightarrow> step option \<Rightarrow> page" where
  "boot e f = host (main e f)"

datatype event =
    Frame "step option"
  | Tap
  | Resize int int
  | LoadSuccess object3d
  | LoadError
  | Permission bool

text \<open>A display refresh runs the scheduled \<^verbatim>\<open>render\<close>; a tap reaches the placement control
  only while it is in the document; the loader and the permission prompt answer once.\<close>

fun dispatch :: "event \<Rightarrow> page \<Rightarrow> page" where
  "dispatch (Frame f) s =
     (if rafPending s = 0 then s else host (render f (s\<lparr>rafPending := rafPending s - 1\<rparr>)))"
| "dispatch Tap s =
     (case placeButton s of
        None \<Rightarrow> s
      | Some b \<Rightarrow> if attached b \<and> 0 < clickListeners b then host (onClick s) else s)"
| "dispatch (Resize w h) s =
     (let s' = s\<lparr>innerWidth := w, innerHeight := h\<rparr>
      in if resizeListener s' then host (onResize s') else s')"
| "dispatch (LoadSuccess g) s =
     (if loadPending s then host (onLoad g (s\<lparr>loadPending := False\<rparr>)) else s)"
| "dispatch LoadError s =
     (if loadPending s then host (onLoadError (s\<lparr>loadPending := False\<rparr>)) else s)"
| "dispatch (Permission granted) s =
     (if permissionPending s then host (onPermission granted (s\<lparr>permissionPending := False\<rparr>))
      else s)"

text \<open>The events of a session, oldest first.\<close>

fun run :: "event list \<Rightarrow> page \<Rightarrow> page" where
  "run [] s = s"
| "run (e # es) s = run es (dispatch e s)"

subsection \<open>Reading the log\<close>

text \<open>The requests issued between two pages.\<close>

definition issued :: "page \<Rightarrow> page \<Rightarrow> call list" where
  "issued s s' = drop (length (calls s)) (calls s')"

text \<open>The requests that ask for the anchor pose at a camera offset.\<close>

fun isAnchorRequest :: "call \<Rightarrow> bool" where
  "isAnchorRequest (SetAnchorPoseFromCameraOffset x y z) = True"
| "isAnchorRequest c = False"

text \<open>The requests of the frame loop.\<close>

fun isFrameRequest :: "call \<Rightarrow> bool" where
  "isFrameRequest (SetAnchorPoseFromCameraOffset x y z) = True"
| "isFrameRequest (EnvironmentMapUpdate a b) = True"
| "isFrameRequest (CameraUpdateFrame a) = True"
| "isFrameRequest (RendererRender a b) = True"
| "isFrameRequest RequestAnimationFrame = True"
| "isFrameRequest c = False"

text \<open>The value of a number in exact arithmetic, which the double approximates. (A division
  by zero, which the script does not perform, has no exact value; here it is 0.)\<close>

fun exact :: "number \<Rightarrow> real" where
  "exact (Num r) = r"
| "exact MathPI = pi"
| "exact (Times a b) = exact a * exact b"
| "exact (Over a b) = exact a / exact b"

text \<open>An angle given in degrees, in radians.\<close>

definition degrees :: "real \<Rightarrow> real" where
  "degrees d = d * pi / 180"

text \<open>The steps of one iteration as the specification orders them: the anchor request while
  the model is not placed, the environment map, the camera, the drawing, the next frame.\<close>

definition frame_order :: "bool \<Rightarrow> call list" where
  "frame_order placed =
     (if placed then [] else [SetAnchorPoseFromCameraOffset 0 0 (- 2)]) @
     [EnvironmentMapUpdate Renderer Camera, CameraUpdateFrame Renderer,
      RendererRender Scene Camera, RequestAnimationFrame]"

text \<open>The second hierarchy is the first with shadow casting switched on at every mesh: the
  same nodes in the same places, with the same kind, rotation and scale, where a node casts
  shadows exactly if it is a mesh or cast shadows before.\<close>

fun shadowsOn :: "object3d \<Rightarrow> object3d \<Rightarrow> bool"
  and shadowsOnAll :: "object3d list \<Rightarrow> object3d list \<Rightarrow> bool" where
  "shadowsOn (Object3D m c r sc ch) (Object3D m' c' r' sc' ch') =
     (m' = m \<and> c' = (m \<or> c) \<and> r' = r \<and> sc' = sc \<and> shadowsOnAll ch ch')"
| "shadowsOnAll [] [] = True"
| "shadowsOnAll (n # ns) (n' # ns') = (shadowsOn n n' \<and> shadowsOnAll ns ns')"
| "shadowsOnAll [] (n' # ns') = False"
| "shadowsOnAll (n # ns) [] = False"

text \<open>The placement control is on screen as a block: it is in the document and its inline
  display is \<^verbatim>\<open>block\<close>.\<close>

definition controlDisplayed :: "page \<Rightarrow> bool" where
  "controlDisplayed s =
     (case placeButton s of None \<Rightarrow> False | Some b \<Rightarrow> attached b \<and> display b = ''block'')"

text \<open>Every mesh of the hierarchy casts shadows.\<close>

fun allMeshesCast :: "object3d \<Rightarrow> bool" where
  "allMeshesCast (Object3D m c r sc ch) = ((m \<longrightarrow> c) \<and> list_all allMeshesCast ch)"

text \<open>The placement control has no parent, carries the one click listener, and the model is
  not placed.\<close>

definition detached :: "page \<Rightarrow> bool" where
  "detached s =
     (\<not> hasPlaced s \<and>
      (case placeButton s of
         None \<Rightarrow> False
       | Some b \<Rightarrow> \<not> attached b \<and> clickListeners b = 1))"

subsection \<open>Sample inputs\<close>

text \<open>A phone whose document holds the placement control, hidden by its inline style.\<close>

definition env0 :: env where
  "env0 = \<lparr>browserIncompatible = False,
            tapToPlace = Some \<lparr>display = ''none'', attached = True, clickListeners = 0\<rparr>,
            windowWidth = 390, windowHeight = 844\<rparr>"

text \<open>A loaded model: a root group with a mesh and a group that holds a second mesh.\<close>

definition mug :: object3d where
  "mug = Object3D False False (Num 0, Num 0, Num 0) (Num 1, Num 1, Num 1)
           [Object3D True False (Num 0, Num 0, Num 0) (Num 3, Num 3, Num 3) [],
            Object3D False False (Num 0, Num 0, Num 0) (Num 1, Num 1, Num 1)
              [Object3D True False (Num 0, Num 0, Num 0) (Num 1, Num 1, Num 1) []]]"

text \<open>The same phone with a browser that Zappar does not support.\<close>

definition env1 :: env where
  "env1 = \<lparr>browserIncompatible = True,
            tapToPlace = Some \<lparr>display = ''none'', attached = True, clickListeners = 0\<rparr>,
            windowWidth = 390, windowHeight = 844\<rparr>"

text \<open>The same phone with a document that has no element \<^verbatim>\<open>tap-to-place\<close>.\<close>

definition env2 :: env where
  "env2 = \<lparr>browserIncompatible = False, tapToPlace = None,
            windowWidth = 390, windowHeight = 844\<rparr>"

section \<open>Auxiliary facts\<close>

subsection \<open>One iteration of the frame loop\<close>

lemmas render_defs = render_def setAnchorPoseFromCameraOffset_def delegate_def request_def
  requestAnimationFrame_def

lemma render_keeps:
  "hasPlaced (page_of (render f s)) = hasPlaced s"
  "placeButton (page_of (render f s)) = placeButton s"
  "groupChildren (page_of (render f s)) = groupChildren s"
  "planeGeometry (page_of (render f s)) = planeGeometry s"
  "gltfScene (page_of (render f s)) = gltfScene s"
  "loadPending (page_of (render f s)) = loadPending s"
  "permissionPending (page_of (render f s)) = permissionPending s"
  "resizeListener (page_of (render f s)) = resizeListener s"
  "rendererSize (page_of (render f s)) = rendererSize s"
  "innerWidth (page_of (render f s)) = innerWidth s"
  "innerHeight (page_of (render f s)) = innerHeight s"
  "uncaught (page_of (render f s)) = uncaught s"
  by (simp_all add: render_defs)

lemma host_page_of:
  "hasPlaced (host r) = hasPlaced (page_of r)"
  "placeButton (host r) = placeButton (page_of r)"
  "groupChildren (host r) = groupChildren (page_of r)"
  "planeGeometry (host r) = planeGeometry (page_of r)"
  "gltfScene (host r) = gltfScene (page_of r)"
  "loadPending (host r) = loadPending (page_of r)"
  "permissionPending (host r) = permissionPending (page_of r)"
  "resizeListener (host r) = resizeListener (page_of r)"
  "rendererSize (host r) = rendererSize (page_of r)"
  "innerWidth (host r) = innerWidth (page_of r)"
  "innerHeight (host r) = innerHeight (page_of r)"
  "calls (host r) = calls (page_of r)"
  "rafPending (host r) = rafPending (page_of r)"
  "anchorOffset (host r) = anchorOffset (page_of r)"
  by (cases r; simp)+

lemma render_order:
  "prefix (issued s (page_of (render f s))) (frame_order (hasPlaced s))"
  by (simp add: render_defs frame_order_def issued_def)

lemma render_returns:
  "thrown (render f s) = None \<Longrightarrow> issued s (page_of (render f s)) = frame_order (hasPlaced s)"
  by (simp add: render_defs frame_order_def issued_def split: if_splits)

lemma render_anchor:
  "filter isAnchorRequest (issued s (page_of (render f s))) =
     (if hasPlaced s then [] else [SetAnchorPoseFromCameraOffset 0 0 (- 2)])"
  by (simp add: render_defs frame_order_def issued_def)

lemma fail_cases:
  fixes f :: "step option"
  obtains "f = None" | "f = Some AnchorOffset" | "f = Some EnvUpdate"
    | "f = Some CameraUpdate" | "f = Some RenderScene"
proof (cases f)
  case None
  then show ?thesis using that by simp
next
  case (Some st)
  then show ?thesis using that by (cases st) simp_all
qed

lemma render_thrown:
  "thrown (render f s) =
     (if f = Some AnchorOffset \<and> hasPlaced s then None else map_option DelegateFailed f)"
  by (cases rule: fail_cases [of f]; simp add: render_defs)

lemma render_raf:
  "rafPending (page_of (render f s)) =
     (if thrown (render f s) = None then Suc (rafPending s) else rafPending s)"
  by (cases rule: fail_cases [of f]; simp add: render_defs)

subsection \<open>Events and sessions\<close>

lemmas handler_defs = onClick_def onResize_def onLoad_def onLoadError_def onPermission_def
  setSize_def groupAdd_def request_def

lemma render_prefix: "prefix (calls s) (calls (page_of (render f s)))"
  by (simp add: render_defs)

lemma issued_trans:
  assumes "prefix (calls s) (calls s')" and "prefix (calls s') (calls s'')"
  shows "issued s s'' = issued s s' @ issued s' s''"
  using assms by (auto simp: issued_def prefix_def)

lemma dispatch_prefix: "prefix (calls s) (calls (dispatch e s))"
proof (cases e)
  case (Frame f)
  then show ?thesis
    using render_prefix [of "s\<lparr>rafPending := rafPending s - 1\<rparr>" f]
    by (simp add: host_page_of)
qed (simp_all add: handler_defs Let_def split: option.splits)

lemma run_prefix: "prefix (calls s) (calls (run es s))"
proof (induction es arbitrary: s)
  case Nil
  show ?case by simp
next
  case (Cons e es)
  show ?case
    using dispatch_prefix [of s e] Cons.IH [of "dispatch e s"] by simp
qed

lemma dispatch_placed:
  assumes "hasPlaced s"
  shows "hasPlaced (dispatch e s)"
    and "filter isAnchorRequest (issued s (dispatch e s)) = []"
proof -
  show "hasPlaced (dispatch e s)"
    using assms
    by (cases e) (simp_all add: host_page_of render_keeps handler_defs Let_def split: option.splits)
  show "filter isAnchorRequest (issued s (dispatch e s)) = []"
  proof (cases e)
    case (Frame f)
    then show ?thesis
      using assms render_anchor [of "s\<lparr>rafPending := rafPending s - 1\<rparr>" f]
      by (simp add: host_page_of issued_def)
  qed (simp_all add: handler_defs issued_def Let_def split: option.splits)
qed

lemma run_placed:
  assumes "hasPlaced s"
  shows "hasPlaced (run es s) \<and> filter isAnchorRequest (issued s (run es s)) = []"
  using assms
proof (induction es arbitrary: s)
  case Nil
  then show ?case by (simp add: issued_def)
next
  case (Cons e es)
  have p: "hasPlaced (dispatch e s)"
    using Cons.prems by (rule dispatch_placed)
  have "issued s (run es (dispatch e s)) =
      issued s (dispatch e s) @ issued (dispatch e s) (run es (dispatch e s))"
    by (rule issued_trans [OF dispatch_prefix run_prefix])
  then show ?case
    using Cons.IH [OF p] dispatch_placed(2) [OF Cons.prems, of e] by simp
qed

subsection \<open>The script\<close>

lemma initialise_fields:
  "hasPlaced (initialise e s) = False"
  "placeButton (initialise e s) =
     Some (addClickListener (case tapToPlace e of Some b \<Rightarrow> b | None \<Rightarrow> createElement))"
  "resizeListener (initialise e s) = True"
  "loadPending (initialise e s) = True"
  "permissionPending (initialise e s) = True"
  "rafPending (initialise e s) = rafPending s"
  "uncaught (initialise e s) = uncaught s"
  "innerWidth (initialise e s) = innerWidth s"
  "innerHeight (initialise e s) = innerHeight s"
  "rendererSize (initialise e s) = Some (innerWidth s, innerHeight s)"
  "planeGeometry (initialise e s) = Some (innerWidth s, innerHeight s)"
  "gltfScene (initialise e s) = gltfScene s"
  "anchorOffset (initialise e s) = anchorOffset s"
  by (simp_all add: initialise_def handler_defs)

lemma initialise_children:
  "groupChildren (initialise e (pristine e)) = [DirLight, AmbientLight, Plane]"
  by (simp add: initialise_def handler_defs pristine_def)

lemma initialise_calls:
  "calls (initialise e (pristine e)) =
     [NewLoadingManager, NewWebGLRenderer, NewScene, AppendCanvas, NewCamera,
      PermissionRequestUI, GlContextSet, NewInstantWorldTracker, NewInstantWorldAnchorGroup,
      SceneAdd, NewGLTFLoader, GLTFLoad, NewDirectionalLight, NewAmbientLight,
      NewCameraEnvironmentMap, NewPlaneMesh]"
  by (simp add: initialise_def handler_defs pristine_def)

lemma pristine_fields:
  "innerWidth (pristine e) = windowWidth e"
  "innerHeight (pristine e) = windowHeight e"
  "gltfScene (pristine e) = None"
  "rafPending (pristine e) = 0"
  "uncaught (pristine e) = []"
  "anchorOffset (pristine e) = None"
  by (simp_all add: pristine_def)

lemma boot_fields:
  assumes "\<not> browserIncompatible e"
  shows "hasPlaced (boot e f) = False"
    and "placeButton (boot e f) =
       Some (addClickListener (case tapToPlace e of Some b \<Rightarrow> b | None \<Rightarrow> createElement))"
    and "resizeListener (boot e f) = True"
    and "loadPending (boot e f) = True"
    and "permissionPending (boot e f) = True"
    and "planeGeometry (boot e f) = Some (windowWidth e, windowHeight e)"
    and "rendererSize (boot e f) = Some (windowWidth e, windowHeight e)"
    and "groupChildren (boot e f) = [DirLight, AmbientLight, Plane]"
    and "gltfScene (boot e f) = None"
    and "rafPending (boot e f) = (if thrown (main e f) = None then 1 else 0)"
  using assms
  by (simp_all add: boot_def main_def host_page_of render_keeps render_raf initialise_fields
      initialise_children pristine_fields)

lemma boot_env0: "\<not> hasPlaced (boot env0 None)" "rafPending (boot env0 None) = 1"
  "hasPlaced (dispatch Tap (boot env0 None))"
  "rafPending (dispatch Tap (boot env0 None)) = 1"
  by (simp_all add: boot_fields env0_def render_thrown main_def handler_defs host_page_of
      addClickListener_def)

subsection \<open>Scheduling and failures\<close>

lemma dispatch_raf: "rafPending s \<le> 1 \<Longrightarrow> rafPending (dispatch e s) \<le> 1"
proof (cases e)
  case (Frame f)
  assume "rafPending s \<le> 1"
  then show ?thesis
    using Frame by (simp add: host_page_of render_raf)
qed (simp_all add: handler_defs host_page_of Let_def split: option.splits)

lemma run_raf: "rafPending s \<le> 1 \<Longrightarrow> rafPending (run es s) \<le> 1"
proof (induction es arbitrary: s)
  case Nil
  then show ?case by simp
next
  case (Cons e es)
  show ?case
    using Cons.IH [OF dispatch_raf [OF Cons.prems]] by simp
qed

lemma boot_raf: "rafPending (boot e f) \<le> 1"
  by (simp add: boot_def main_def host_page_of render_raf initialise_fields pristine_fields
      request_def)

lemma boot_env0_button:
  "placeButton (boot env0 None) = Some \<lparr>display = ''none'', attached = True, clickListeners = 1\<rparr>"
  by (simp add: boot_fields env0_def addClickListener_def)

lemma render_distinct: "distinct (issued s (page_of (render f s)))"
  by (simp add: render_defs issued_def)

lemma render_last:
  "thrown (render f s) = None \<Longrightarrow> last (issued s (page_of (render f s))) = RequestAnimationFrame"
  by (simp add: render_returns frame_order_def)

lemma render_no_raf:
  "thrown (render f s) \<noteq> None \<Longrightarrow> RequestAnimationFrame \<notin> set (issued s (page_of (render f s)))"
  by (cases rule: fail_cases [of f]; simp add: render_defs issued_def split: if_splits)

lemma frame_uncaught:
  "0 < rafPending s \<Longrightarrow>
   uncaught (dispatch (Frame f) s) =
     uncaught s @ (case thrown (render f s) of None \<Rightarrow> [] | Some e \<Rightarrow> [e])"
  by (cases rule: fail_cases [of f]; simp add: render_defs)

lemma frame_raf:
  "0 < rafPending s \<Longrightarrow>
   rafPending (dispatch (Frame f) s) =
     (if thrown (render f s) = None then rafPending s else rafPending s - 1)"
  by (simp add: host_page_of render_raf render_thrown)

lemma host_uncaught:
  "uncaught (host r) = uncaught (page_of r) @ (case thrown r of None \<Rightarrow> [] | Some x \<Rightarrow> [x])"
  by (cases r) simp_all

lemma main_uncaught: "uncaught (page_of (main e f)) = []"
  by (simp add: main_def render_keeps initialise_fields pristine_fields request_def)

lemma main_thrown:
  "thrown (main e f) =
     (if browserIncompatible e then Some (Error ''Unsupported browser'')
      else map_option DelegateFailed f)"
  by (simp add: main_def render_thrown initialise_fields)

lemma boot_uncaught:
  "uncaught (boot e f) = (case thrown (main e f) of None \<Rightarrow> [] | Some x \<Rightarrow> [x])"
  by (simp add: boot_def host_uncaught main_uncaught)

lemma render_issued_exact:
  "issued s (page_of (render f s)) =
     (if hasPlaced s then [] else [SetAnchorPoseFromCameraOffset 0 0 (- 2)]) @
     (if f = Some AnchorOffset \<and> \<not> hasPlaced s then []
      else EnvironmentMapUpdate Renderer Camera #
       (if f = Some EnvUpdate then []
        else CameraUpdateFrame Renderer #
         (if f = Some CameraUpdate then []
          else RendererRender Scene Camera #
           (if f = Some RenderScene then [] else [RequestAnimationFrame]))))"
  by (cases rule: fail_cases [of f]; simp add: render_defs issued_def)

lemma dispatch_stopped:
  assumes "rafPending s = 0"
  shows "rafPending (dispatch e s) = 0"
    and "filter isFrameRequest (issued s (dispatch e s)) = []"
  using assms
  by (cases e; simp add: handler_defs issued_def Let_def split: option.splits)+

lemma run_stopped:
  assumes "rafPending s = 0"
  shows "rafPending (run es s) = 0 \<and> filter isFrameRequest (issued s (run es s)) = []"
  using assms
proof (induction es arbitrary: s)
  case Nil
  then show ?case by (simp add: issued_def)
next
  case (Cons e es)
  have z: "rafPending (dispatch e s) = 0"
    using Cons.prems by (rule dispatch_stopped)
  have "issued s (run es (dispatch e s)) =
      issued s (dispatch e s) @ issued (dispatch e s) (run es (dispatch e s))"
    by (rule issued_trans [OF dispatch_prefix run_prefix])
  then show ?case
    using Cons.IH [OF z] dispatch_stopped(2) [OF Cons.prems, of e] by simp
qed

lemma started_frame_fails:
  assumes "0 < rafPending (run es (boot e f0))"
    and "thrown (render f (run es (boot e f0))) \<noteq> None"
  shows "rafPending (dispatch (Frame f) (run es (boot e f0))) = 0"
proof -
  have "rafPending (run es (boot e f0)) \<le> 1"
    by (rule run_raf [OF boot_raf])
  then show ?thesis
    using assms frame_raf [OF assms(1), of f] by simp
qed

lemma boot_fails:
  assumes "\<not> browserIncompatible e"
  shows "thrown (main e (Some st)) = Some (DelegateFailed st)"
    and "uncaught (boot e (Some st)) = [DelegateFailed st]"
    and "rafPending (boot e (Some st)) = 0"
  using assms by (simp_all add: main_thrown boot_uncaught boot_fields)

subsection \<open>The model load\<close>

lemma traverse_castShadow_all: "allMeshesCast (traverse_castShadow g)"
  by (induction g) (simp add: list_all_iff)

lemma shadowsOnAll_map:
  "(\<And>n. n \<in> set ns \<Longrightarrow> shadowsOn n (h n)) \<Longrightarrow> shadowsOnAll ns (map h ns)"
  by (induction ns) simp_all

lemma traverse_castShadow_shadowsOn: "shadowsOn g (traverse_castShadow g)"
  by (induction g) (simp add: shadowsOnAll_map)

lemma traverse_castShadow_unfold:
  "traverse_castShadow g =
     Object3D (isMesh g) (isMesh g \<or> castShadow g) (rotation g) (scale g)
       (map traverse_castShadow (children g))"
  by (cases g) simp

lemma degrees_72: "exact (Over MathPI (Num 2.5)) = degrees 72"
  by (simp add: degrees_def)

lemma onLoad_effect:
  assumes "placeButton s = Some b" and "GltfScene \<notin> set (groupChildren s)"
  shows "onLoad g s =
     Returned (s\<lparr>placeButton := Some (b\<lparr>display := ''block''\<rparr>),
                 gltfScene := Some (traverse_castShadow
                   (Object3D (isMesh g) (castShadow g)
                      (set_y (rotation g) (Over MathPI (Num 2.5)))
                      (multiplyScalar (scale g) (Num 1.2)) (children g))),
                 groupChildren := groupChildren s @ [GltfScene]\<rparr>)"
  using assms by (cases g) (simp add: onLoad_def groupAdd_def remove1_idem)

lemma dispatch_loadable:
  assumes "placeButton s \<noteq> None" and "loadPending s \<longrightarrow> GltfScene \<notin> set (groupChildren s)"
  shows "placeButton (dispatch e s) \<noteq> None"
    and "loadPending (dispatch e s) \<longrightarrow> GltfScene \<notin> set (groupChildren (dispatch e s))"
  using assms
  by (cases e; simp add: host_page_of render_keeps handler_defs Let_def split: option.splits)+

lemma run_loadable:
  assumes "placeButton s \<noteq> None" and "loadPending s \<longrightarrow> GltfScene \<notin> set (groupChildren s)"
  shows "placeButton (run es s) \<noteq> None \<and>
         (loadPending (run es s) \<longrightarrow> GltfScene \<notin> set (groupChildren (run es s)))"
  using assms
proof (induction es arbitrary: s)
  case Nil
  then show ?case by simp
next
  case (Cons e es)
  show ?case
    using Cons.IH [OF dispatch_loadable [OF Cons.prems]] by simp
qed

lemma dispatch_settled:
  assumes "\<not> loadPending s"
  shows "\<not> loadPending (dispatch e s)"
    and "groupChildren (dispatch e s) = groupChildren s"
    and "gltfScene (dispatch e s) = gltfScene s"
    and "map_option display (placeButton (dispatch e s)) = map_option display (placeButton s)"
  using assms
  by (cases e; simp add: host_page_of render_keeps handler_defs Let_def remove_def
      option.map_comp comp_def split: option.splits)+

lemma run_settled:
  assumes "\<not> loadPending s"
  shows "groupChildren (run es s) = groupChildren s \<and> gltfScene (run es s) = gltfScene s \<and>
         map_option display (placeButton (run es s)) = map_option display (placeButton s)"
  using assms
proof (induction es arbitrary: s)
  case Nil
  then show ?case by simp
next
  case (Cons e es)
  show ?case
    using Cons.IH [OF dispatch_settled(1) [OF Cons.prems]] dispatch_settled(2-4) [OF Cons.prems, of e]
    by simp
qed

lemmas eval_defs = boot_def main_def env0_def initialise_def pristine_def render_defs handler_defs
  createElement_def addClickListener_def remove_def issued_def mug_def

lemma dispatch_LoadError:
  "loadPending s \<Longrightarrow>
   dispatch LoadError s =
     s\<lparr>loadPending := False,
       calls := calls s @ [ConsoleLog ''An error ocurred loading the GLTF model'']\<rparr>"
  by (simp add: onLoadError_def request_def)

subsection \<open>The placement control\<close>

lemma remove_idem: "map_option remove (map_option remove x) = map_option remove x"
  by (cases x) (simp_all add: remove_def)

lemma onClick_twice: "onClick (page_of (onClick s)) = Returned (page_of (onClick s))"
  by (simp add: onClick_def remove_idem)

lemma tap_twice: "dispatch Tap (dispatch Tap s) = dispatch Tap s"
  by (cases "placeButton s") (simp_all add: onClick_def remove_def)

subsection \<open>A page on which nothing is set up\<close>

lemma dispatch_idle:
  assumes "rafPending s = 0" and "\<not> resizeListener s" and "\<not> loadPending s"
    and "\<not> permissionPending s" and "placeButton s = None"
  shows "(dispatch e s)\<lparr>innerWidth := w, innerHeight := h\<rparr> = s\<lparr>innerWidth := w, innerHeight := h\<rparr>"
    and "rafPending (dispatch e s) = 0" and "\<not> resizeListener (dispatch e s)"
    and "\<not> loadPending (dispatch e s)" and "\<not> permissionPending (dispatch e s)"
    and "placeButton (dispatch e s) = None"
  using assms by (cases e; simp add: Let_def)+

lemma run_idle:
  assumes "rafPending s = 0" and "\<not> resizeListener s" and "\<not> loadPending s"
    and "\<not> permissionPending s" and "placeButton s = None"
  shows "(run es s)\<lparr>innerWidth := w, innerHeight := h\<rparr> = s\<lparr>innerWidth := w, innerHeight := h\<rparr>"
  using assms
proof (induction es arbitrary: s)
  case Nil
  show ?case by simp
next
  case (Cons e es)
  have "(run es (dispatch e s))\<lparr>innerWidth := w, innerHeight := h\<rparr> =
      (dispatch e s)\<lparr>innerWidth := w, innerHeight := h\<rparr>"
    by (rule Cons.IH [OF dispatch_idle(2-6) [OF Cons.prems]])
  then show ?case
    using dispatch_idle(1) [OF Cons.prems, where e = e and w = w and h = h] by simp
qed

lemma boot_incompatible:
  "browserIncompatible e \<Longrightarrow>
   boot e f = (pristine e)\<lparr>calls := [BrowserIncompatibleUI],
                 uncaught := [Error ''Unsupported browser'']\<rparr>"
  by (simp add: boot_def main_def request_def pristine_def)

subsection \<open>Resizing\<close>

lemma dispatch_keeps:
  "resizeListener (dispatch e s) = resizeListener s"
  "planeGeometry (dispatch e s) = planeGeometry s"
  by (cases e; simp add: host_page_of render_keeps handler_defs Let_def split: option.splits)+

lemma run_keeps:
  "resizeListener (run es s) = resizeListener s \<and> planeGeometry (run es s) = planeGeometry s"
  by (induction es arbitrary: s) (simp_all add: dispatch_keeps)

lemma dispatch_Resize:
  "resizeListener s \<Longrightarrow>
   dispatch (Resize w h) s = s\<lparr>innerWidth := w, innerHeight := h, rendererSize := Some (w, h)\<rparr>"
  by (simp add: onResize_def setSize_def)

subsection \<open>A placement control outside the document\<close>

lemma dispatch_detached: "detached s \<Longrightarrow> detached (dispatch e s)"
  by (cases e;
      auto simp: detached_def host_page_of render_keeps handler_defs Let_def split: option.splits)

lemma run_detached: "detached s \<Longrightarrow> detached (run es s)"
  by (induction es arbitrary: s) (simp_all add: dispatch_detached)

lemma boot_detached:
  "\<not> browserIncompatible e \<Longrightarrow> tapToPlace e = None \<Longrightarrow> detached (boot e f)"
  by (simp add: detached_def boot_fields createElement_def addClickListener_def)

lemma detached_Tap: "detached s \<Longrightarrow> dispatch Tap s = s"
  by (simp add: detached_def split: option.splits)

lemma detached_LoadSuccess:
  "detached s \<Longrightarrow> loadPending s \<Longrightarrow>
   map_option display (placeButton (dispatch (LoadSuccess g) s)) = Some ''block''"
  by (auto simp: detached_def onLoad_def groupAdd_def Let_def split: option.splits)

section \<open>The claims\<close>

text \<open>
  C1. In an iteration of the frame loop that finds \<^verbatim>\<open>hasPlaced\<close> false, the first request is
  the anchor pose at the camera offset \<open>(0, 0, -2)\<close>, and it is the only anchor request of the
  iteration. In an iteration that finds \<^verbatim>\<open>hasPlaced\<close> true no anchor request is issued and
  the last requested offset stays as it was. The same holds for the iteration that a display
  refresh runs.
\<close>

theorem render_anchor_request:
  "(\<not> hasPlaced s \<longrightarrow>
      take 1 (issued s (page_of (render f s))) = [SetAnchorPoseFromCameraOffset 0 0 (- 2)] \<and>
      filter isAnchorRequest (issued s (page_of (render f s))) =
        [SetAnchorPoseFromCameraOffset 0 0 (- 2)]) \<and>
   (hasPlaced s \<longrightarrow>
      filter isAnchorRequest (issued s (page_of (render f s))) = [] \<and>
      anchorOffset (page_of (render f s)) = anchorOffset s) \<and>
   (0 < rafPending s \<longrightarrow>
      filter isAnchorRequest (issued s (dispatch (Frame f) s)) =
        (if hasPlaced s then [] else [SetAnchorPoseFromCameraOffset 0 0 (- 2)]))"
proof (intro conjI impI)
  assume "\<not> hasPlaced s"
  then show "take 1 (issued s (page_of (render f s))) = [SetAnchorPoseFromCameraOffset 0 0 (- 2)]"
    by (simp add: render_defs issued_def)
  show "filter isAnchorRequest (issued s (page_of (render f s))) =
        [SetAnchorPoseFromCameraOffset 0 0 (- 2)]"
    using \<open>\<not> hasPlaced s\<close> by (simp add: render_anchor)
next
  assume "hasPlaced s"
  then show "filter isAnchorRequest (issued s (page_of (render f s))) = []"
    by (simp add: render_anchor)
  show "anchorOffset (page_of (render f s)) = anchorOffset s"
    using \<open>hasPlaced s\<close> by (simp add: render_defs)
next
  assume "0 < rafPending s"
  then show "filter isAnchorRequest (issued s (dispatch (Frame f) s)) =
        (if hasPlaced s then [] else [SetAnchorPoseFromCameraOffset 0 0 (- 2)])"
    using render_anchor [of "s\<lparr>rafPending := rafPending s - 1\<rparr>" f]
    by (simp add: host_page_of issued_def)
qed

theorem render_anchor_request_witness:
  "\<not> hasPlaced (boot env0 None) \<and>
   take 1 (issued (boot env0 None) (page_of (render None (boot env0 None)))) =
     [SetAnchorPoseFromCameraOffset 0 0 (- 2)] \<and>
   0 < rafPending (boot env0 None) \<and>
   filter isAnchorRequest (issued (boot env0 None) (dispatch (Frame None) (boot env0 None))) =
     [SetAnchorPoseFromCameraOffset 0 0 (- 2)] \<and>
   hasPlaced (dispatch Tap (boot env0 None)) \<and>
   filter isAnchorRequest
     (issued (dispatch Tap (boot env0 None))
        (page_of (render None (dispatch Tap (boot env0 None))))) = []"
  using render_anchor_request [of "boot env0 None" None]
    render_anchor_request [of "dispatch Tap (boot env0 None)" None] boot_env0
  by simp

text \<open>
  C2. \<^verbatim>\<open>hasPlaced\<close> is false when the script has run. The click listener sets it. No event
  clears it again: once it is true it is true after every event and after every session. After
  the click listener has run, and so after a tap that reaches the placement control, no session
  issues an anchor request any more.
\<close>

theorem placement_terminal:
  "\<not> hasPlaced (boot e f) \<and>
   hasPlaced (page_of (onClick s)) \<and>
   (hasPlaced s \<longrightarrow> hasPlaced (dispatch ev s)) \<and>
   (hasPlaced s \<longrightarrow> hasPlaced (run es s)) \<and>
   filter isAnchorRequest (issued (page_of (onClick s)) (run es (page_of (onClick s)))) = [] \<and>
   (\<forall>b. placeButton s = Some b \<and> attached b \<and> 0 < clickListeners b \<longrightarrow>
      hasPlaced (dispatch Tap s) \<and>
      filter isAnchorRequest (issued (dispatch Tap s) (run es (dispatch Tap s))) = [])"
proof (intro conjI impI allI)
  show "\<not> hasPlaced (boot e f)"
    by (simp add: boot_def main_def host_page_of render_keeps initialise_fields pristine_def
        request_def)
  show c: "hasPlaced (page_of (onClick s))"
    by (simp add: onClick_def)
  show "hasPlaced (dispatch ev s)" if "hasPlaced s"
    using that by (rule dispatch_placed)
  show "hasPlaced (run es s)" if "hasPlaced s"
    using run_placed [OF that] by simp
  show "filter isAnchorRequest (issued (page_of (onClick s)) (run es (page_of (onClick s)))) = []"
    using run_placed [OF c] by simp
  fix b
  assume "placeButton s = Some b \<and> attached b \<and> 0 < clickListeners b"
  then show t: "hasPlaced (dispatch Tap s)"
    by (simp add: onClick_def)
  show "filter isAnchorRequest (issued (dispatch Tap s) (run es (dispatch Tap s))) = []"
    using run_placed [OF t] by simp
qed

theorem placement_terminal_witness:
  "placeButton (boot env0 None) = Some \<lparr>display = ''none'', attached = True, clickListeners = 1\<rparr> \<and>
   \<not> hasPlaced (boot env0 None) \<and>
   hasPlaced (dispatch Tap (boot env0 None)) \<and>
   hasPlaced (run [Frame None, Resize 844 390, Frame None] (dispatch Tap (boot env0 None))) \<and>
   filter isAnchorRequest
     (issued (dispatch Tap (boot env0 None))
        (run [Frame None, Resize 844 390, Frame None] (dispatch Tap (boot env0 None)))) = []"
  using placement_terminal [of env0 None "boot env0 None" Tap
      "[Frame None, Resize 844 390, Frame None]"]
    placement_terminal [of env0 None "dispatch Tap (boot env0 None)" Tap
      "[Frame None, Resize 844 390, Frame None]"]
    boot_env0_button
  by simp

text \<open>
  C3. The requests of one iteration are an initial segment of the specified order: the anchor
  request (only while not placed), the environment map update with renderer and camera, the
  camera's frame update, the drawing of the scene through the camera, the scheduling of the next
  iteration. An iteration that returns has issued them all and has scheduled one more iteration.
  The next iteration is requested only after all the other steps are done, and at no time is
  more than one iteration scheduled.
\<close>

theorem render_step_order:
  "prefix (issued s (page_of (render f s))) (frame_order (hasPlaced s)) \<and>
   (thrown (render f s) = None \<longrightarrow>
      issued s (page_of (render f s)) = frame_order (hasPlaced s) \<and>
      rafPending (page_of (render f s)) = Suc (rafPending s)) \<and>
   (RequestAnimationFrame \<in> set (issued s (page_of (render f s))) \<longrightarrow>
      issued s (page_of (render f s)) = frame_order (hasPlaced s)) \<and>
   thrown (render None s) = None \<and>
   frame_order (hasPlaced s) =
     (if hasPlaced s then [] else [SetAnchorPoseFromCameraOffset 0 0 (- 2)]) @
     [EnvironmentMapUpdate Renderer Camera, CameraUpdateFrame Renderer,
      RendererRender Scene Camera, RequestAnimationFrame] \<and>
   rafPending (run es (boot e f0)) \<le> 1"
proof (intro conjI impI)
  show "prefix (issued s (page_of (render f s))) (frame_order (hasPlaced s))"
    by (rule render_order)
  show "issued s (page_of (render f s)) = frame_order (hasPlaced s)"
    if "thrown (render f s) = None"
    using that by (rule render_returns)
  show "rafPending (page_of (render f s)) = Suc (rafPending s)"
    if "thrown (render f s) = None"
    using that by (simp add: render_raf)
  show "issued s (page_of (render f s)) = frame_order (hasPlaced s)"
    if "RequestAnimationFrame \<in> set (issued s (page_of (render f s)))"
    using that
    by (cases rule: fail_cases [of f]; simp add: render_defs issued_def frame_order_def
        split: if_splits)
  show "thrown (render None s) = None"
    by (simp add: render_thrown)
  show "frame_order (hasPlaced s) =
     (if hasPlaced s then [] else [SetAnchorPoseFromCameraOffset 0 0 (- 2)]) @
     [EnvironmentMapUpdate Renderer Camera, CameraUpdateFrame Renderer,
      RendererRender Scene Camera, RequestAnimationFrame]"
    by (simp add: frame_order_def)
  show "rafPending (run es (boot e f0)) \<le> 1"
    by (rule run_raf [OF boot_raf])
qed

theorem render_step_order_witness:
  "thrown (render None (boot env0 None)) = None \<and>
   issued (boot env0 None) (page_of (render None (boot env0 None))) =
     [SetAnchorPoseFromCameraOffset 0 0 (- 2), EnvironmentMapUpdate Renderer Camera,
      CameraUpdateFrame Renderer, RendererRender Scene Camera, RequestAnimationFrame] \<and>
   RequestAnimationFrame \<in> set (issued (boot env0 None) (page_of (render None (boot env0 None))))"
  using render_step_order [of "boot env0 None" None] boot_env0(1)
  by simp

text \<open>
  C4, as stated, fails. The script has no error handling, so a delegated call that throws ends
  \<^verbatim>\<open>render\<close> before its last statement: on the started page, an iteration whose environment
  map update fails issues no \<^verbatim>\<open>requestAnimationFrame\<close>, nothing stays scheduled, and later
  display refreshes run nothing.
\<close>

theorem render_failure_stops_loop:
  "rafPending (boot env0 None) = 1 \<and>
   thrown (render (Some EnvUpdate) (boot env0 None)) = Some (DelegateFailed EnvUpdate) \<and>
   RequestAnimationFrame \<notin>
     set (issued (boot env0 None) (page_of (render (Some EnvUpdate) (boot env0 None)))) \<and>
   rafPending (dispatch (Frame (Some EnvUpdate)) (boot env0 None)) = 0 \<and>
   dispatch (Frame None) (dispatch (Frame (Some EnvUpdate)) (boot env0 None)) =
     dispatch (Frame (Some EnvUpdate)) (boot env0 None)"
proof -
  have t: "thrown (render (Some EnvUpdate) (boot env0 None)) = Some (DelegateFailed EnvUpdate)"
    by (simp add: render_thrown)
  have r: "rafPending (dispatch (Frame (Some EnvUpdate)) (boot env0 None)) = 0"
    using frame_raf [of "boot env0 None" "Some EnvUpdate"] t boot_env0(2) by simp
  have "RequestAnimationFrame \<notin>
     set (issued (boot env0 None) (page_of (render (Some EnvUpdate) (boot env0 None))))"
    using t by (intro render_no_raf) simp
  moreover have "dispatch (Frame None) (dispatch (Frame (Some EnvUpdate)) (boot env0 None)) =
     dispatch (Frame (Some EnvUpdate)) (boot env0 None)"
    using r by (simp del: dispatch.simps add: dispatch.simps(1) [of None])
  ultimately show ?thesis
    using t r boot_env0(2) by simp
qed

text \<open>
  C4, amended. An iteration throws exactly when the delegated call named by \<open>f\<close> is reached,
  with that failure. Its requests are the steps in order up to and including the failed call and
  none after it; no request is issued twice (nothing is retried). An iteration that returns ends
  with the scheduling of the next one. An iteration that throws schedules nothing, and the
  failure reaches the host, which records it. On a started page the frame loop then stops:
  nothing is scheduled any more and no later session issues a request of the frame loop. A
  failure in the first iteration, which the script itself calls, leaves the script with that
  failure, and the frame loop never runs again.
\<close>

theorem render_failure_semantics:
  "thrown (render f s) =
     (if f = Some AnchorOffset \<and> hasPlaced s then None else map_option DelegateFailed f) \<and>
   issued s (page_of (render f s)) =
     (if hasPlaced s then [] else [SetAnchorPoseFromCameraOffset 0 0 (- 2)]) @
     (if f = Some AnchorOffset \<and> \<not> hasPlaced s then []
      else EnvironmentMapUpdate Renderer Camera #
       (if f = Some EnvUpdate then []
        else CameraUpdateFrame Renderer #
         (if f = Some CameraUpdate then []
          else RendererRender Scene Camera #
           (if f = Some RenderScene then [] else [RequestAnimationFrame])))) \<and>
   distinct (issued s (page_of (render f s))) \<and>
   prefix (issued s (page_of (render f s))) (frame_order (hasPlaced s)) \<and>
   (thrown (render f s) = None \<longrightarrow>
      last (issued s (page_of (render f s))) = RequestAnimationFrame \<and>
      rafPending (page_of (render f s)) = Suc (rafPending s)) \<and>
   (thrown (render f s) \<noteq> None \<longrightarrow>
      RequestAnimationFrame \<notin> set (issued s (page_of (render f s))) \<and>
      rafPending (page_of (render f s)) = rafPending s) \<and>
   (0 < rafPending s \<longrightarrow>
      uncaught (dispatch (Frame f) s) =
        uncaught s @ (case thrown (render f s) of None \<Rightarrow> [] | Some e \<Rightarrow> [e]) \<and>
      rafPending (dispatch (Frame f) s) =
        (if thrown (render f s) = None then rafPending s else rafPending s - 1)) \<and>
   (0 < rafPending (run es (boot e f0)) \<and> thrown (render f (run es (boot e f0))) \<noteq> None \<longrightarrow>
      rafPending (dispatch (Frame f) (run es (boot e f0))) = 0 \<and>
      rafPending (run es' (dispatch (Frame f) (run es (boot e f0)))) = 0 \<and>
      filter isFrameRequest
        (issued (dispatch (Frame f) (run es (boot e f0)))
           (run es' (dispatch (Frame f) (run es (boot e f0))))) = []) \<and>
   (\<not> browserIncompatible e \<longrightarrow>
      thrown (main e (Some st)) = Some (DelegateFailed st) \<and>
      uncaught (boot e (Some st)) = [DelegateFailed st] \<and>
      issued (initialise e (pristine e)) (boot e (Some st)) =
        SetAnchorPoseFromCameraOffset 0 0 (- 2) #
        (if st = AnchorOffset then []
         else EnvironmentMapUpdate Renderer Camera #
          (if st = EnvUpdate then []
           else CameraUpdateFrame Renderer #
            (if st = CameraUpdate then [] else [RendererRender Scene Camera]))) \<and>
      rafPending (run es (boot e (Some st))) = 0 \<and>
      filter isFrameRequest (issued (boot e (Some st)) (run es (boot e (Some st)))) = [])"
proof (intro conjI impI)
  show "thrown (render f s) =
     (if f = Some AnchorOffset \<and> hasPlaced s then None else map_option DelegateFailed f)"
    by (rule render_thrown)
  show "issued s (page_of (render f s)) =
     (if hasPlaced s then [] else [SetAnchorPoseFromCameraOffset 0 0 (- 2)]) @
     (if f = Some AnchorOffset \<and> \<not> hasPlaced s then []
      else EnvironmentMapUpdate Renderer Camera #
       (if f = Some EnvUpdate then []
        else CameraUpdateFrame Renderer #
         (if f = Some CameraUpdate then []
          else RendererRender Scene Camera #
           (if f = Some RenderScene then [] else [RequestAnimationFrame]))))"
    by (rule render_issued_exact)
  show "distinct (issued s (page_of (render f s)))"
    by (rule render_distinct)
  show "prefix (issued s (page_of (render f s))) (frame_order (hasPlaced s))"
    by (rule render_order)
  show "last (issued s (page_of (render f s))) = RequestAnimationFrame"
    if "thrown (render f s) = None"
    using that by (rule render_last)
  show "rafPending (page_of (render f s)) = Suc (rafPending s)"
    if "thrown (render f s) = None"
    using that by (simp add: render_raf)
  show "RequestAnimationFrame \<notin> set (issued s (page_of (render f s)))"
    if "thrown (render f s) \<noteq> None"
    using that by (rule render_no_raf)
  show "rafPending (page_of (render f s)) = rafPending s"
    if "thrown (render f s) \<noteq> None"
    using that by (simp add: render_raf)
  show "uncaught (dispatch (Frame f) s) =
        uncaught s @ (case thrown (render f s) of None \<Rightarrow> [] | Some e \<Rightarrow> [e])"
    if "0 < rafPending s"
    using that by (rule frame_uncaught)
  show "rafPending (dispatch (Frame f) s) =
        (if thrown (render f s) = None then rafPending s else rafPending s - 1)"
    if "0 < rafPending s"
    using that by (rule frame_raf)
next
  assume a: "0 < rafPending (run es (boot e f0)) \<and>
    thrown (render f (run es (boot e f0))) \<noteq> None"
  show z: "rafPending (dispatch (Frame f) (run es (boot e f0))) = 0"
    using a by (intro started_frame_fails) simp_all
  show "rafPending (run es' (dispatch (Frame f) (run es (boot e f0)))) = 0"
    and "filter isFrameRequest
        (issued (dispatch (Frame f) (run es (boot e f0)))
           (run es' (dispatch (Frame f) (run es (boot e f0))))) = []"
    using run_stopped [OF z, of es'] by simp_all
next
  assume c: "\<not> browserIncompatible e"
  show "thrown (main e (Some st)) = Some (DelegateFailed st)"
    and "uncaught (boot e (Some st)) = [DelegateFailed st]"
    using c by (rule boot_fails)+
  have "issued (initialise e (pristine e)) (boot e (Some st)) =
      issued (initialise e (pristine e))
        (page_of (render (Some st) (initialise e (pristine e))))"
    using c by (simp add: boot_def main_def issued_def host_page_of)
  then show "issued (initialise e (pristine e)) (boot e (Some st)) =
        SetAnchorPoseFromCameraOffset 0 0 (- 2) #
        (if st = AnchorOffset then []
         else EnvironmentMapUpdate Renderer Camera #
          (if st = EnvUpdate then []
           else CameraUpdateFrame Renderer #
            (if st = CameraUpdate then [] else [RendererRender Scene Camera])))"
    by (cases st) (simp_all add: render_issued_exact initialise_fields)
  have z: "rafPending (boot e (Some st)) = 0"
    using c by (rule boot_fails)
  show "rafPending (run es (boot e (Some st))) = 0"
    and "filter isFrameRequest (issued (boot e (Some st)) (run es (boot e (Some st)))) = []"
    using run_stopped [OF z, of es] by simp_all
qed

theorem render_failure_semantics_witness:
  "0 < rafPending (boot env0 None) \<and>
   thrown (render None (boot env0 None)) = None \<and>
   rafPending (page_of (render None (boot env0 None))) = 2 \<and>
   rafPending (dispatch (Frame None) (boot env0 None)) = 1 \<and>
   uncaught (dispatch (Frame None) (boot env0 None)) = [] \<and>
   thrown (render (Some RenderScene) (boot env0 None)) = Some (DelegateFailed RenderScene) \<and>
   issued (boot env0 None) (page_of (render (Some RenderScene) (boot env0 None))) =
     [SetAnchorPoseFromCameraOffset 0 0 (- 2), EnvironmentMapUpdate Renderer Camera,
      CameraUpdateFrame Renderer, RendererRender Scene Camera] \<and>
   rafPending (page_of (render (Some RenderScene) (boot env0 None))) = 1 \<and>
   rafPending (dispatch (Frame (Some RenderScene)) (boot env0 None)) = 0 \<and>
   uncaught (dispatch (Frame (Some RenderScene)) (boot env0 None)) = [DelegateFailed RenderScene] \<and>
   rafPending (run [Frame None, Tap, Frame None]
     (dispatch (Frame (Some RenderScene)) (boot env0 None))) = 0 \<and>
   filter isFrameRequest
     (issued (dispatch (Frame (Some RenderScene)) (boot env0 None))
        (run [Frame None, Tap, Frame None]
           (dispatch (Frame (Some RenderScene)) (boot env0 None)))) = [] \<and>
   \<not> browserIncompatible env0 \<and>
   uncaught (boot env0 (Some EnvUpdate)) = [DelegateFailed EnvUpdate] \<and>
   issued (initialise env0 (pristine env0)) (boot env0 (Some EnvUpdate)) =
     [SetAnchorPoseFromCameraOffset 0 0 (- 2), EnvironmentMapUpdate Renderer Camera] \<and>
   rafPending (run [Frame None, Frame None] (boot env0 (Some EnvUpdate))) = 0"
proof -
  have u: "uncaught (boot env0 None) = []"
    by (simp add: boot_uncaught main_thrown env0_def)
  have c: "\<not> browserIncompatible env0"
    by (simp add: env0_def)
  have r: "run [] (boot env0 None) = boot env0 None"
    by simp
  note a = render_failure_semantics [where f = None and s = "boot env0 None"]
  note b = render_failure_semantics [where f = "Some RenderScene" and s = "boot env0 None"
      and es = "[]" and e = env0 and ?f0.0 = None and es' = "[Frame None, Tap, Frame None]"]
  note d = render_failure_semantics [where e = env0 and st = EnvUpdate
      and es = "[Frame None, Frame None]"]
  have t: "thrown (render (Some RenderScene) (boot env0 None)) \<noteq> None"
    by (simp add: render_thrown)
  have p: "0 < rafPending (run [] (boot env0 None)) \<and>
      thrown (render (Some RenderScene) (run [] (boot env0 None))) \<noteq> None"
    using t boot_env0(2) by simp
  have b1: "rafPending (run [Frame None, Tap, Frame None]
     (dispatch (Frame (Some RenderScene)) (boot env0 None))) = 0"
    and b2: "filter isFrameRequest
     (issued (dispatch (Frame (Some RenderScene)) (boot env0 None))
        (run [Frame None, Tap, Frame None]
           (dispatch (Frame (Some RenderScene)) (boot env0 None)))) = []"
    using b p unfolding r by blast+
  have d1: "uncaught (boot env0 (Some EnvUpdate)) = [DelegateFailed EnvUpdate]"
    and d2: "issued (initialise env0 (pristine env0)) (boot env0 (Some EnvUpdate)) =
     [SetAnchorPoseFromCameraOffset 0 0 (- 2), EnvironmentMapUpdate Renderer Camera]"
    and d3: "rafPending (run [Frame None, Frame None] (boot env0 (Some EnvUpdate))) = 0"
    using d c by simp_all
  have a1: "thrown (render None (boot env0 None)) = None"
    and a2: "rafPending (page_of (render None (boot env0 None))) = 2"
    and a3: "rafPending (dispatch (Frame None) (boot env0 None)) = 1"
    and a4: "uncaught (dispatch (Frame None) (boot env0 None)) = []"
    using a boot_env0(1,2) u by simp_all
  have b3: "thrown (render (Some RenderScene) (boot env0 None)) = Some (DelegateFailed RenderScene)"
    and b4: "issued (boot env0 None) (page_of (render (Some RenderScene) (boot env0 None))) =
     [SetAnchorPoseFromCameraOffset 0 0 (- 2), EnvironmentMapUpdate Renderer Camera,
      CameraUpdateFrame Renderer, RendererRender Scene Camera]"
    and b5: "rafPending (page_of (render (Some RenderScene) (boot env0 None))) = 1"
    and b6: "rafPending (dispatch (Frame (Some RenderScene)) (boot env0 None)) = 0"
    and b7: "uncaught (dispatch (Frame (Some RenderScene)) (boot env0 None)) =
      [DelegateFailed RenderScene]"
    using b boot_env0(1,2) u by simp_all
  show ?thesis
    using p a1 a2 a3 a4 b1 b2 b3 b4 b5 b6 b7 c d1 d2 d3 unfolding r by blast
qed

text \<open>
  C5, as stated, fails in its first part. When the document has no element
  \<^verbatim>\<open>tap-to-place\<close>, the success callback sets the display of a control that is not in the
  document: the control is not on screen after the callback.
\<close>

theorem load_success_control_detached:
  "\<not> browserIncompatible env2 \<and> loadPending (boot env2 None) \<and>
   placeButton (dispatch (LoadSuccess mug) (boot env2 None)) =
     Some \<lparr>display = ''block'', attached = False, clickListeners = 1\<rparr> \<and>
   \<not> controlDisplayed (dispatch (LoadSuccess mug) (boot env2 None))"
proof -
  have c: "\<not> browserIncompatible env2"
    by (simp add: env2_def)
  have l: "loadPending (boot env2 None)"
    using c by (simp add: boot_fields)
  have p: "placeButton (dispatch (LoadSuccess mug) (boot env2 None)) =
     Some \<lparr>display = ''block'', attached = False, clickListeners = 1\<rparr>"
    by (simp add: eval_defs env2_def)
  show ?thesis
    using c l p by (simp add: controlDisplayed_def del: dispatch.simps)
qed

text \<open>
  C5, amended. While the load is pending on a started page, the success callback: sets the
  display of the placement control to \<^verbatim>\<open>block\<close> and leaves it in or out of the document as it
  was, so that the control is on screen afterwards exactly if it was in the document; stores as
  the model the loaded root with its rotation about the vertical axis set to
  \<^verbatim>\<open>Math.PI / 2.5\<close>, which is 72 degrees in exact arithmetic, with each component of its scale
  multiplied by 1.2, and with shadow casting switched on at the root and at every descendant
  that is a mesh, the hierarchy being otherwise the loaded one; every mesh of the stored model
  casts shadows; appends the root to the children of the anchor group, where it then occurs
  exactly once, also after every later session; and does not throw.
\<close>

theorem load_success:
  assumes "\<not> browserIncompatible e" and "loadPending (run es (boot e f))"
  shows "let s = run es (boot e f); s' = dispatch (LoadSuccess g) s in
           map_option display (placeButton s') = Some ''block'' \<and>
           map_option attached (placeButton s') = map_option attached (placeButton s) \<and>
           controlDisplayed s' = (map_option attached (placeButton s) = Some True) \<and>
           gltfScene s' =
             Some (Object3D (isMesh g) (isMesh g \<or> castShadow g)
               (case rotation g of (x, y, z) \<Rightarrow> (x, Over MathPI (Num 2.5), z))
               (case scale g of (x, y, z) \<Rightarrow>
                  (Times x (Num 1.2), Times y (Num 1.2), Times z (Num 1.2)))
               (map traverse_castShadow (children g))) \<and>
           exact (Over MathPI (Num 2.5)) = degrees 72 \<and>
           (\<forall>x. exact (Times x (Num 1.2)) = exact x * 1.2) \<and>
           shadowsOnAll (children g) (map traverse_castShadow (children g)) \<and>
           (case gltfScene s' of None \<Rightarrow> False | Some g' \<Rightarrow> allMeshesCast g') \<and>
           groupChildren s' = groupChildren s @ [GltfScene] \<and>
           count_list (groupChildren s') GltfScene = 1 \<and>
           (\<forall>es'. count_list (groupChildren (run es' s')) GltfScene = 1) \<and>
           uncaught s' = uncaught s"
proof -
  define s where "s = run es (boot e f)"
  define s' where "s' = dispatch (LoadSuccess g) s"
  define g0 where "g0 = Object3D (isMesh g) (castShadow g)
    (set_y (rotation g) (Over MathPI (Num 2.5))) (multiplyScalar (scale g) (Num 1.2)) (children g)"
  have b: "placeButton (boot e f) \<noteq> None"
    and c: "loadPending (boot e f) \<longrightarrow> GltfScene \<notin> set (groupChildren (boot e f))"
    using assms(1) by (simp_all add: boot_fields)
  have inv: "placeButton s \<noteq> None" "GltfScene \<notin> set (groupChildren s)"
    using run_loadable [OF b c, of es] assms(2) by (simp_all add: s_def)
  then obtain pb where pb: "placeButton s = Some pb"
    by auto
  have lp: "loadPending s"
    using assms(2) by (simp add: s_def)
  have pb': "placeButton (s\<lparr>loadPending := False\<rparr>) = Some pb"
    and fresh: "GltfScene \<notin> set (groupChildren (s\<lparr>loadPending := False\<rparr>))"
    using pb inv(2) by simp_all
  have eq: "s' = s\<lparr>loadPending := False,
      placeButton := Some (pb\<lparr>display := ''block''\<rparr>),
      gltfScene := Some (traverse_castShadow g0),
      groupChildren := groupChildren s @ [GltfScene]\<rparr>"
    using lp by (simp add: s'_def g0_def onLoad_effect [OF pb' fresh])
  have d: "map_option display (placeButton s') = Some ''block''"
    by (simp add: eq)
  have a: "map_option attached (placeButton s') = map_option attached (placeButton s)"
    by (simp add: eq pb)
  have v: "controlDisplayed s' = (map_option attached (placeButton s) = Some True)"
    by (simp add: eq pb controlDisplayed_def)
  have m: "gltfScene s' =
             Some (Object3D (isMesh g) (isMesh g \<or> castShadow g)
               (case rotation g of (x, y, z) \<Rightarrow> (x, Over MathPI (Num 2.5), z))
               (case scale g of (x, y, z) \<Rightarrow>
                  (Times x (Num 1.2), Times y (Num 1.2), Times z (Num 1.2)))
               (map traverse_castShadow (children g)))"
    by (cases "rotation g"; cases "scale g") (simp add: eq g0_def)
  have x1: "exact (Over MathPI (Num 2.5)) = degrees 72"
    by (rule degrees_72)
  have x2: "\<forall>x. exact (Times x (Num 1.2)) = exact x * 1.2"
    by simp
  have o: "shadowsOnAll (children g) (map traverse_castShadow (children g))"
    by (rule shadowsOnAll_map) (rule traverse_castShadow_shadowsOn)
  have "allMeshesCast (traverse_castShadow g0)"
    by (rule traverse_castShadow_all)
  then have all: "case gltfScene s' of None \<Rightarrow> False | Some g' \<Rightarrow> allMeshesCast g'"
    by (simp add: eq)
  have k: "groupChildren s' = groupChildren s @ [GltfScene]"
    by (simp add: eq)
  have n: "count_list (groupChildren s') GltfScene = 1"
    using inv(2) by (simp add: k count_list_0_iff)
  have "\<not> loadPending s'"
    by (simp add: eq)
  then have later: "\<forall>es'. count_list (groupChildren (run es' s')) GltfScene = 1"
    using run_settled [of s'] n by simp
  have u: "uncaught s' = uncaught s"
    by (simp add: eq)
  show ?thesis
    unfolding Let_def s_def [symmetric] s'_def [symmetric]
    using d a v m x1 x2 o all k n later u by blast
qed

theorem load_success_witness:
  "\<not> browserIncompatible env0 \<and> loadPending (run [Frame None] (boot env0 None)) \<and>
   placeButton (dispatch (LoadSuccess mug) (run [Frame None] (boot env0 None))) =
     Some \<lparr>display = ''block'', attached = True, clickListeners = 1\<rparr> \<and>
   controlDisplayed (dispatch (LoadSuccess mug) (run [Frame None] (boot env0 None))) \<and>
   gltfScene (dispatch (LoadSuccess mug) (run [Frame None] (boot env0 None))) =
     Some (Object3D False False (Num 0, Over MathPI (Num 2.5), Num 0)
       (Times (Num 1) (Num 1.2), Times (Num 1) (Num 1.2), Times (Num 1) (Num 1.2))
       [Object3D True True (Num 0, Num 0, Num 0) (Num 3, Num 3, Num 3) [],
        Object3D False False (Num 0, Num 0, Num 0) (Num 1, Num 1, Num 1)
          [Object3D True True (Num 0, Num 0, Num 0) (Num 1, Num 1, Num 1) []]]) \<and>
   groupChildren (dispatch (LoadSuccess mug) (run [Frame None] (boot env0 None))) =
     [DirLight, AmbientLight, Plane, GltfScene] \<and>
   count_list (groupChildren
     (run [Tap, Frame None] (dispatch (LoadSuccess mug) (run [Frame None] (boot env0 None)))))
     GltfScene = 1"
proof -
  have h1: "\<not> browserIncompatible env0"
    by (simp add: env0_def)
  have h2: "loadPending (run [Frame None] (boot env0 None))"
    by (simp add: eval_defs)
  have p: "placeButton (run [Frame None] (boot env0 None)) =
      Some \<lparr>display = ''none'', attached = True, clickListeners = 1\<rparr>"
    by (simp add: eval_defs)
  have g: "groupChildren (run [Frame None] (boot env0 None)) = [DirLight, AmbientLight, Plane]"
    by (simp add: eval_defs)
  have v: "placeButton (dispatch (LoadSuccess mug) (run [Frame None] (boot env0 None))) =
     Some \<lparr>display = ''block'', attached = True, clickListeners = 1\<rparr>"
    by (simp add: eval_defs)
  note t = load_success [OF h1 h2, of mug, unfolded Let_def]
  have t3: "controlDisplayed (dispatch (LoadSuccess mug) (run [Frame None] (boot env0 None)))"
    using t p by simp
  have t4: "gltfScene (dispatch (LoadSuccess mug) (run [Frame None] (boot env0 None))) =
     Some (Object3D False False (Num 0, Over MathPI (Num 2.5), Num 0)
       (Times (Num 1) (Num 1.2), Times (Num 1) (Num 1.2), Times (Num 1) (Num 1.2))
       [Object3D True True (Num 0, Num 0, Num 0) (Num 3, Num 3, Num 3) [],
        Object3D False False (Num 0, Num 0, Num 0) (Num 1, Num 1, Num 1)
          [Object3D True True (Num 0, Num 0, Num 0) (Num 1, Num 1, Num 1) []]])"
    using t by (simp add: mug_def del: dispatch.simps run.simps)
  have t5: "groupChildren (dispatch (LoadSuccess mug) (run [Frame None] (boot env0 None))) =
     [DirLight, AmbientLight, Plane, GltfScene]"
    using t g by (simp del: dispatch.simps run.simps)
  have t6: "count_list (groupChildren
     (run [Tap, Frame None] (dispatch (LoadSuccess mug) (run [Frame None] (boot env0 None)))))
     GltfScene = 1"
    using t by blast
  show ?thesis
    using h1 h2 v t3 t4 t5 t6 by blast
qed

text \<open>
  C6. The error callback only writes a line to the console. When the pending load fails, the
  page changes in nothing but that line and the answered load: the children of the anchor group
  and the placement control are as before, nothing is thrown, and the scheduled iteration stays
  scheduled. In every later session the children of the group, the absence of the model and the
  display of the placement control stay as they were before the failure.
\<close>

theorem load_failure:
  "onLoadError s =
     Returned (s\<lparr>calls := calls s @ [ConsoleLog ''An error ocurred loading the GLTF model'']\<rparr>) \<and>
   (loadPending s \<longrightarrow>
      dispatch LoadError s =
        s\<lparr>loadPending := False,
          calls := calls s @ [ConsoleLog ''An error ocurred loading the GLTF model'']\<rparr> \<and>
      groupChildren (dispatch LoadError s) = groupChildren s \<and>
      placeButton (dispatch LoadError s) = placeButton s \<and>
      uncaught (dispatch LoadError s) = uncaught s \<and>
      rafPending (dispatch LoadError s) = rafPending s \<and>
      (\<forall>es. groupChildren (run es (dispatch LoadError s)) = groupChildren s \<and>
            gltfScene (run es (dispatch LoadError s)) = gltfScene s \<and>
            map_option display (placeButton (run es (dispatch LoadError s))) =
              map_option display (placeButton s)))"
proof (intro conjI impI allI)
  show "onLoadError s =
     Returned (s\<lparr>calls := calls s @ [ConsoleLog ''An error ocurred loading the GLTF model'']\<rparr>)"
    by (simp add: onLoadError_def request_def)
next
  assume lp: "loadPending s"
  show eq: "dispatch LoadError s =
        s\<lparr>loadPending := False,
          calls := calls s @ [ConsoleLog ''An error ocurred loading the GLTF model'']\<rparr>"
    using lp by (rule dispatch_LoadError)
  show "groupChildren (dispatch LoadError s) = groupChildren s"
    and "placeButton (dispatch LoadError s) = placeButton s"
    and "uncaught (dispatch LoadError s) = uncaught s"
    and "rafPending (dispatch LoadError s) = rafPending s"
    by (simp_all only: eq) simp_all
  have n: "\<not> loadPending (dispatch LoadError s)"
    by (simp only: eq) simp
  fix es
  show "groupChildren (run es (dispatch LoadError s)) = groupChildren s"
    and "gltfScene (run es (dispatch LoadError s)) = gltfScene s"
    and "map_option display (placeButton (run es (dispatch LoadError s))) =
              map_option display (placeButton s)"
    using run_settled [OF n, of es] by (simp_all only: eq) simp_all
qed

theorem load_failure_witness:
  "loadPending (boot env0 None) \<and>
   issued (boot env0 None) (dispatch LoadError (boot env0 None)) =
     [ConsoleLog ''An error ocurred loading the GLTF model''] \<and>
   groupChildren (dispatch LoadError (boot env0 None)) = [DirLight, AmbientLight, Plane] \<and>
   placeButton (dispatch LoadError (boot env0 None)) =
     Some \<lparr>display = ''none'', attached = True, clickListeners = 1\<rparr> \<and>
   groupChildren (run [Frame None, LoadSuccess mug, Tap] (dispatch LoadError (boot env0 None))) =
     [DirLight, AmbientLight, Plane] \<and>
   map_option display
     (placeButton (run [Frame None, LoadSuccess mug, Tap] (dispatch LoadError (boot env0 None)))) =
     Some ''none''"
proof -
  have h: "loadPending (boot env0 None)"
    by (simp add: boot_fields env0_def)
  have g: "groupChildren (boot env0 None) = [DirLight, AmbientLight, Plane]"
    by (simp add: boot_fields env0_def)
  note f = load_failure [of "boot env0 None", THEN conjunct2, rule_format, OF h]
  have "dispatch LoadError (boot env0 None) =
      (boot env0 None)\<lparr>loadPending := False,
        calls := calls (boot env0 None) @ [ConsoleLog ''An error ocurred loading the GLTF model'']\<rparr>"
    using f by blast
  then have i: "issued (boot env0 None) (dispatch LoadError (boot env0 None)) =
     [ConsoleLog ''An error ocurred loading the GLTF model'']"
    by (simp add: issued_def)
  have a: "groupChildren (dispatch LoadError (boot env0 None)) = groupChildren (boot env0 None)"
    and b: "placeButton (dispatch LoadError (boot env0 None)) = placeButton (boot env0 None)"
    and c: "\<forall>es. groupChildren (run es (dispatch LoadError (boot env0 None))) =
              groupChildren (boot env0 None) \<and>
            gltfScene (run es (dispatch LoadError (boot env0 None))) = gltfScene (boot env0 None) \<and>
            map_option display (placeButton (run es (dispatch LoadError (boot env0 None)))) =
              map_option display (placeButton (boot env0 None))"
    using f by blast+
  show ?thesis
    using h i a b c [rule_format, of "[Frame None, LoadSuccess mug, Tap]"] g boot_env0_button
    by (simp del: dispatch.simps run.simps)
qed

text \<open>
  C7. The click listener never throws. Running it a second time returns as well and gives the
  page of the first run: the flag stays true and removing the removed control changes nothing.
  A second tap leaves the page of the first tap as it is.
\<close>

theorem onClick_idempotent:
  "thrown (onClick s) = None \<and>
   thrown (and_then (onClick s) onClick) = None \<and>
   and_then (onClick s) onClick = onClick s \<and>
   onClick (page_of (onClick s)) = Returned (page_of (onClick s)) \<and>
   hasPlaced (page_of (and_then (onClick s) onClick)) \<and>
   dispatch Tap (dispatch Tap s) = dispatch Tap s"
proof -
  have r: "onClick s = Returned (page_of (onClick s))"
    by (simp add: onClick_def)
  have "and_then (onClick s) onClick = onClick (page_of (onClick s))"
    by (subst r) simp
  then have e: "and_then (onClick s) onClick = onClick s"
    using onClick_twice [of s] r by simp
  have t: "thrown (onClick s) = None" and h: "hasPlaced (page_of (onClick s))"
    by (simp_all add: onClick_def)
  show ?thesis
    using e t h onClick_twice [of s] tap_twice [of s] by simp
qed

theorem onClick_idempotent_witness:
  "hasPlaced (dispatch Tap (boot env0 None)) \<and>
   onClick (dispatch Tap (boot env0 None)) = Returned (dispatch Tap (boot env0 None)) \<and>
   dispatch Tap (dispatch Tap (boot env0 None)) = dispatch Tap (boot env0 None)"
proof -
  have "dispatch Tap (boot env0 None) = page_of (onClick (boot env0 None))"
    using boot_env0_button by (simp add: onClick_def)
  then show ?thesis
    using onClick_idempotent [of "boot env0 None"] boot_env0(3)
    by (simp del: dispatch.simps)
qed

text \<open>
  C8. In an unsupported browser the script requests the incompatibility notice and then throws
  \<open>Unsupported browser\<close>; the notice is its only request. Nothing else of the script has
  run: after every session there is no renderer, no placement control, no child of the anchor
  group, no plane, no listener, no pending load or permission, and no scheduled iteration. Only
  the size of the window can differ from the untouched page.
\<close>

theorem unsupported_browser_aborts:
  assumes "browserIncompatible e"
  shows "main e f =
           Thrown (Error ''Unsupported browser'') ((pristine e)\<lparr>calls := [BrowserIncompatibleUI]\<rparr>) \<and>
         (run es (boot e f))\<lparr>innerWidth := w, innerHeight := h\<rparr> =
           (pristine e)\<lparr>calls := [BrowserIncompatibleUI],
              uncaught := [Error ''Unsupported browser''], innerWidth := w, innerHeight := h\<rparr> \<and>
         calls (run es (boot e f)) = [BrowserIncompatibleUI] \<and>
         uncaught (run es (boot e f)) = [Error ''Unsupported browser''] \<and>
         rendererSize (run es (boot e f)) = None \<and>
         placeButton (run es (boot e f)) = None \<and>
         groupChildren (run es (boot e f)) = [] \<and>
         planeGeometry (run es (boot e f)) = None \<and>
         \<not> resizeListener (run es (boot e f)) \<and>
         \<not> loadPending (run es (boot e f)) \<and>
         \<not> permissionPending (run es (boot e f)) \<and>
         rafPending (run es (boot e f)) = 0"
proof -
  have m: "main e f =
      Thrown (Error ''Unsupported browser'') ((pristine e)\<lparr>calls := [BrowserIncompatibleUI]\<rparr>)"
    using assms by (simp add: main_def request_def pristine_def)
  have b: "boot e f = (pristine e)\<lparr>calls := [BrowserIncompatibleUI],
                 uncaught := [Error ''Unsupported browser'']\<rparr>"
    using assms by (rule boot_incompatible)
  have idle: "rafPending (boot e f) = 0" "\<not> resizeListener (boot e f)" "\<not> loadPending (boot e f)"
    "\<not> permissionPending (boot e f)" "placeButton (boot e f) = None"
    by (simp_all add: b pristine_def)
  have r: "(run es (boot e f))\<lparr>innerWidth := w, innerHeight := h\<rparr> =
      (boot e f)\<lparr>innerWidth := w, innerHeight := h\<rparr>"
    by (rule run_idle [OF idle])
  have r': "(run es (boot e f))\<lparr>innerWidth := w, innerHeight := h\<rparr> =
           (pristine e)\<lparr>calls := [BrowserIncompatibleUI],
              uncaught := [Error ''Unsupported browser''], innerWidth := w, innerHeight := h\<rparr>"
    using r by (simp add: b)
  have "calls (run es (boot e f)) = [BrowserIncompatibleUI]"
    and "uncaught (run es (boot e f)) = [Error ''Unsupported browser'']"
    and "rendererSize (run es (boot e f)) = None"
    and "placeButton (run es (boot e f)) = None"
    and "groupChildren (run es (boot e f)) = []"
    and "planeGeometry (run es (boot e f)) = None"
    and "\<not> resizeListener (run es (boot e f))"
    and "\<not> loadPending (run es (boot e f))"
    and "\<not> permissionPending (run es (boot e f))"
    and "rafPending (run es (boot e f)) = 0"
    using arg_cong [OF r', of calls] arg_cong [OF r', of uncaught] arg_cong [OF r', of rendererSize]
      arg_cong [OF r', of placeButton] arg_cong [OF r', of groupChildren]
      arg_cong [OF r', of planeGeometry] arg_cong [OF r', of resizeListener]
      arg_cong [OF r', of loadPending] arg_cong [OF r', of permissionPending]
      arg_cong [OF r', of rafPending]
    by (simp_all add: pristine_def)
  then show ?thesis
    using m r' by blast
qed

theorem unsupported_browser_aborts_witness:
  "browserIncompatible env1 \<and>
   thrown (main env1 None) = Some (Error ''Unsupported browser'') \<and>
   calls (page_of (main env1 None)) = [BrowserIncompatibleUI] \<and>
   calls (run [Frame None, Tap, LoadSuccess mug, Resize 844 390, Permission True, Frame None]
     (boot env1 None)) = [BrowserIncompatibleUI] \<and>
   rafPending (run [Frame None, Tap, LoadSuccess mug, Resize 844 390, Permission True, Frame None]
     (boot env1 None)) = 0"
proof -
  have h: "browserIncompatible env1"
    by (simp add: env1_def)
  show ?thesis
    using h unsupported_browser_aborts [OF h, where f = None and es =
        "[Frame None, Tap, LoadSuccess mug, Resize 844 390, Permission True, Frame None]"]
    by (simp del: run.simps)
qed

text \<open>
  C9. On a page with the resize listener, a resize to \<open>w\<close> by \<open>h\<close> changes the size of the
  window and sets the size of the renderer to exactly \<open>w\<close> by \<open>h\<close>, within the event; no other
  field of the page changes. On a started page, after any session, the renderer has the new size
  and the geometry of the ground plane is still the size the window had at startup.
\<close>

theorem resize_sets_renderer_size:
  "(resizeListener s \<longrightarrow>
      dispatch (Resize w h) s =
        s\<lparr>innerWidth := w, innerHeight := h, rendererSize := Some (w, h)\<rparr>) \<and>
   (\<not> browserIncompatible e \<longrightarrow>
      rendererSize (boot e f) = Some (windowWidth e, windowHeight e) \<and>
      planeGeometry (boot e f) = Some (windowWidth e, windowHeight e) \<and>
      rendererSize (dispatch (Resize w h) (run es (boot e f))) = Some (w, h) \<and>
      planeGeometry (dispatch (Resize w h) (run es (boot e f))) =
        Some (windowWidth e, windowHeight e))"
proof (intro conjI impI)
  show "dispatch (Resize w h) s =
        s\<lparr>innerWidth := w, innerHeight := h, rendererSize := Some (w, h)\<rparr>"
    if "resizeListener s"
    using that by (rule dispatch_Resize)
next
  assume c: "\<not> browserIncompatible e"
  show "rendererSize (boot e f) = Some (windowWidth e, windowHeight e)"
    and p: "planeGeometry (boot e f) = Some (windowWidth e, windowHeight e)"
    using c by (simp_all add: boot_fields)
  have l: "resizeListener (run es (boot e f))"
    using c by (simp add: run_keeps boot_fields)
  show "rendererSize (dispatch (Resize w h) (run es (boot e f))) = Some (w, h)"
    by (simp only: dispatch_Resize [OF l]) simp
  show "planeGeometry (dispatch (Resize w h) (run es (boot e f))) =
        Some (windowWidth e, windowHeight e)"
    by (simp del: dispatch.simps add: dispatch_keeps run_keeps p)
qed

theorem resize_sets_renderer_size_witness:
  "resizeListener (boot env0 None) \<and> \<not> browserIncompatible env0 \<and>
   rendererSize (boot env0 None) = Some (390, 844) \<and>
   planeGeometry (boot env0 None) = Some (390, 844) \<and>
   rendererSize (dispatch (Resize 844 390) (run [Frame None, Tap] (boot env0 None))) =
     Some (844, 390) \<and>
   planeGeometry (dispatch (Resize 844 390) (run [Frame None, Tap] (boot env0 None))) =
     Some (390, 844) \<and>
   dispatch (Resize 844 390) (boot env0 None) =
     (boot env0 None)\<lparr>innerWidth := 844, innerHeight := 390, rendererSize := Some (844, 390)\<rparr>"
proof -
  have h: "\<not> browserIncompatible env0" and w: "windowWidth env0 = 390" "windowHeight env0 = 844"
    by (simp_all add: env0_def)
  have l: "resizeListener (boot env0 None)"
    using h by (simp add: boot_fields)
  show ?thesis
    using h l w resize_sets_renderer_size [of "boot env0 None" 844 390 env0 None "[Frame None, Tap]"]
    by (simp del: dispatch.simps run.simps)
qed

text \<open>
  C10. When the script runs in a supported browser and the document has no element
  \<^verbatim>\<open>tap-to-place\<close>, the placement control is a fresh element without a parent, with the
  click listener registered on it. After every session it is still without a parent and
  \<^verbatim>\<open>hasPlaced\<close> is still false; a tap changes nothing. The success callback of the load sets
  the display of this detached element to \<^verbatim>\<open>block\<close>.
\<close>

theorem missing_control_fallback:
  assumes "\<not> browserIncompatible e" and "tapToPlace e = None"
  shows "placeButton (boot e f) = Some \<lparr>display = [], attached = False, clickListeners = 1\<rparr> \<and>
         detached (run es (boot e f)) \<and>
         \<not> hasPlaced (run es (boot e f)) \<and>
         map_option attached (placeButton (run es (boot e f))) = Some False \<and>
         map_option clickListeners (placeButton (run es (boot e f))) = Some 1 \<and>
         dispatch Tap (run es (boot e f)) = run es (boot e f) \<and>
         (loadPending (run es (boot e f)) \<longrightarrow>
            map_option display (placeButton (dispatch (LoadSuccess g) (run es (boot e f)))) =
              Some ''block'' \<and>
            map_option attached (placeButton (dispatch (LoadSuccess g) (run es (boot e f)))) =
              Some False)"
proof -
  have b: "placeButton (boot e f) = Some \<lparr>display = [], attached = False, clickListeners = 1\<rparr>"
    using assms by (simp add: boot_fields createElement_def addClickListener_def)
  have d: "detached (run es (boot e f))"
    by (rule run_detached [OF boot_detached [OF assms]])
  have d': "detached (dispatch (LoadSuccess g) (run es (boot e f)))"
    by (rule dispatch_detached [OF d])
  have f1: "\<not> hasPlaced (run es (boot e f))"
    and f2: "map_option attached (placeButton (run es (boot e f))) = Some False"
    and f3: "map_option clickListeners (placeButton (run es (boot e f))) = Some 1"
    using d by (auto simp: detached_def split: option.splits)
  have f4: "map_option attached (placeButton (dispatch (LoadSuccess g) (run es (boot e f)))) =
      Some False"
    using d' by (auto simp: detached_def split: option.splits)
  have f5: "dispatch Tap (run es (boot e f)) = run es (boot e f)"
    by (rule detached_Tap [OF d])
  show ?thesis
    using b d f1 f2 f3 f4 f5 detached_LoadSuccess [OF d] by blast
qed

theorem missing_control_fallback_witness:
  "\<not> browserIncompatible env2 \<and> tapToPlace env2 = None \<and>
   loadPending (run [Frame None, Tap] (boot env2 None)) \<and>
   placeButton (boot env2 None) = Some \<lparr>display = [], attached = False, clickListeners = 1\<rparr> \<and>
   \<not> hasPlaced (run [Frame None, Tap] (boot env2 None)) \<and>
   placeButton (run [Frame None, Tap, LoadSuccess mug, Tap, Frame None] (boot env2 None)) =
     Some \<lparr>display = ''block'', attached = False, clickListeners = 1\<rparr> \<and>
   \<not> hasPlaced (run [Frame None, Tap, LoadSuccess mug, Tap, Frame None] (boot env2 None)) \<and>
   map_option display
     (placeButton (dispatch (LoadSuccess mug) (run [Frame None, Tap] (boot env2 None)))) =
     Some ''block''"
proof -
  have h1: "\<not> browserIncompatible env2" and h2: "tapToPlace env2 = None"
    by (simp_all add: env2_def)
  have h3: "loadPending (run [Frame None, Tap] (boot env2 None))"
    by (simp add: eval_defs env2_def)
  have v: "placeButton (run [Frame None, Tap, LoadSuccess mug, Tap, Frame None] (boot env2 None)) =
     Some \<lparr>display = ''block'', attached = False, clickListeners = 1\<rparr>"
    by (simp add: eval_defs env2_def)
  note m = missing_control_fallback [OF h1 h2]
  show ?thesis
    using h1 h2 h3 v m [of None "[Frame None, Tap]" mug]
      m [of None "[Frame None, Tap, LoadSuccess mug, Tap, Frame None]" mug]
    by blast
qed

end
